theory Spec2Isabelle
  imports Complex_Main "HOL-Library.Multiset" "HOL-Library.Sublist"
begin

section \<open>Values decoded from the game archive\<close>

text \<open>
  The games handled by \<^verbatim>\<open>chess.py\<close> are whatever \<^verbatim>\<open>res.json()\<close> returns: Python
  values built from \<^verbatim>\<open>None\<close>, \<^verbatim>\<open>bool\<close>, \<^verbatim>\<open>int\<close>, \<^verbatim>\<open>float\<close>, \<^verbatim>\<open>str\<close>, \<^verbatim>\<open>list\<close> and
  \<^verbatim>\<open>dict\<close>. A \<^verbatim>\<open>dict\<close> is an association list in insertion order whose lookup takes
  the first binding of a key. A finite \<^verbatim>\<open>float\<close> is the rational it denotes;
  \<^verbatim>\<open>nan\<close> and the infinities are \<open>JNonFinite\<close>. A \<^verbatim>\<open>str\<close> is the list of its UTF-8 bytes.
\<close>

datatype json =
    JNull
  | JBool bool
  | JInt int
  | JFloat rat
  | JNonFinite
  | JStr string
  | JList "json list"
  | JObj "(string \<times> json) list"

text \<open>
  \<^verbatim>\<open>v[k]\<close> with a string key: only a \<^verbatim>\<open>dict\<close> holding the key yields a value. A missing
  key raises \<^verbatim>\<open>KeyError\<close>, every other kind of value raises \<^verbatim>\<open>TypeError\<close>; both are
  \<open>None\<close> here, the callers catch either.
\<close>

fun subscript :: "json \<Rightarrow> string \<Rightarrow> json option" where
  "subscript (JObj kvs) k = map_of kvs k"
| "subscript _ k = None"

text \<open>
  \<^verbatim>\<open>str.lower()\<close>, on the ASCII letters. Python also lowers letters beyond ASCII, whose
  lower-case forms are again beyond ASCII apart from U+212A and U+0130, which give
  \<^verbatim>\<open>k\<close> and \<^verbatim>\<open>i\<close> followed by U+0307; none of these can produce the configured name, so
  the comparison with \<open>username\<close> below is decided as in Python.
\<close>

definition lower_char :: "char \<Rightarrow> char" where
  "lower_char c =
     (let n = (of_char c :: nat) in if 65 \<le> n \<and> n \<le> 90 then char_of (n + 32) else c)"

definition lower :: "string \<Rightarrow> string" where
  "lower s = map lower_char s"

text \<open>\<^verbatim>\<open>v.lower()\<close>: \<^verbatim>\<open>AttributeError\<close> unless \<open>v\<close> is a \<^verbatim>\<open>str\<close>.\<close>

fun lower_method :: "json \<Rightarrow> string option" where
  "lower_method (JStr s) = Some (lower s)"
| "lower_method _ = None"

section \<open>Configuration\<close>

text \<open>\<^verbatim>\<open>username = "cand5d".lower()\<close>\<close>

definition username :: string where
  "username = lower ''cand5d''"

section \<open>Dates\<close>

text \<open>
  A \<^verbatim>\<open>datetime.date\<close> is the number of days from 1970-01-01 to it; dates compare as
  these numbers do. \<open>ymd\<close> gives the proleptic Gregorian year, month and day of such a
  number, to read the dates of the examples.
\<close>

type_synonym date = int


text \<open>
  Rounding to the nearest integer, ties to the even one: how CPython rounds the
  fraction of a float timestamp to microseconds.
\<close>

definition round_half_even :: "rat \<Rightarrow> int" where
  "round_half_even x =
     (let f = \<lfloor>x\<rfloor>; r = x - of_int f
      in if r < 1 / 2 then f else if 1 / 2 < r then f + 1 else if even f then f else f + 1)"

text \<open>
  The whole seconds of the timestamp \<^verbatim>\<open>datetime.utcfromtimestamp\<close> is given. An \<^verbatim>\<open>int\<close>
  is taken as it is and a \<^verbatim>\<open>bool\<close> is the int 0 or 1. A \<^verbatim>\<open>float\<close> is split into its
  integral part (towards zero) and its fraction, the fraction is rounded to
  microseconds, and a carry or borrow moves the seconds. Anything else raises.
\<close>

fun timestamp_seconds :: "json \<Rightarrow> int option" where
  "timestamp_seconds (JInt n) = Some n"
| "timestamp_seconds (JBool b) = Some (if b then 1 else 0)"
| "timestamp_seconds (JFloat x) =
     (let ip = (if 0 \<le> x then \<lfloor>x\<rfloor> else \<lceil>x\<rceil>);
          us = round_half_even ((x - of_int ip) * 1000000)
      in Some (if 1000000 \<le> us then ip + 1 else if us < 0 then ip - 1 else ip))"
| "timestamp_seconds _ = None"

text \<open>
  \<^verbatim>\<open>datetime.utcfromtimestamp(v).date()\<close>. The years of a \<^verbatim>\<open>datetime\<close> are 1 to 9999:
  a timestamp before 0001-01-01 00:00:00 or after 9999-12-31 23:59:59 raises.
\<close>

definition utcfromtimestamp_date :: "json \<Rightarrow> date option" where
  "utcfromtimestamp_date v =
     (case timestamp_seconds v of
        None \<Rightarrow> None
      | Some s \<Rightarrow>
          if - 62135596800 \<le> s \<and> s \<le> 253402300799 then Some (s div 86400) else None)"

section \<open>Binary64 arithmetic\<close>

text \<open>
  The columns \<^verbatim>\<open>Wins\<close> and \<^verbatim>\<open>Games\<close> are int64 and the column \<^verbatim>\<open>Win Rate (%)\<close> is
  float64. A finite binary64 number is the rational it denotes, and every operation
  gives the exact result rounded to 53 significant bits, ties to the even
  significand. Overflow and subnormal numbers are left out: the values of this
  program are zero or lie between \<open>1 / 2 ^ 63\<close> and 1000.
\<close>

text \<open>The power of two with an integer exponent.\<close>

definition pow2 :: "int \<Rightarrow> rat" where
  "pow2 e = (if 0 \<le> e then 2 ^ nat e else 1 / 2 ^ nat (- e))"

text \<open>The binary exponent of a positive number: \<open>2 ^ expo x \<le> x < 2 ^ (expo x + 1)\<close>.\<close>

function expo :: "rat \<Rightarrow> int" where
  "expo x = (if x \<le> 0 then 0 else if 2 \<le> x then expo (x / 2) + 1
             else if x < 1 then expo (x * 2) - 1 else 0)"
  by pat_completeness auto
termination
proof (relation "measure (\<lambda>x. nat (2 * \<lceil>1 / x\<rceil> + \<lfloor>x\<rfloor>))")
  show "wf (measure (\<lambda>x::rat. nat (2 * \<lceil>1 / x\<rceil> + \<lfloor>x\<rfloor>)))" by simp
next
  fix x :: rat
  assume a: "\<not> x \<le> 0" "2 \<le> x"
  then have "0 < 1 / x" "1 / x \<le> 1" "0 < 1 / (x / 2)" "1 / (x / 2) \<le> 1" by (simp_all)
  then have c: "\<lceil>1 / x\<rceil> = 1" "\<lceil>1 / (x / 2)\<rceil> = 1" by (simp_all add: ceiling_eq_iff)
  from a have lt: "\<lfloor>x / 2\<rfloor> < \<lfloor>x\<rfloor>" by (simp add: floor_less_iff) linarith
  from a have ge: "0 \<le> \<lfloor>x / 2\<rfloor>" by simp
  from lt ge have "nat (2 * 1 + \<lfloor>x / 2\<rfloor>) < nat (2 * 1 + \<lfloor>x\<rfloor>)" by linarith
  then show "(x / 2, x) \<in> measure (\<lambda>x. nat (2 * \<lceil>1 / x\<rceil> + \<lfloor>x\<rfloor>))"
    by (simp only: in_measure c)
next
  fix x :: rat
  assume a: "\<not> x \<le> 0" "\<not> 2 \<le> x" "x < 1"
  then have f: "\<lfloor>x\<rfloor> = 0" "\<lfloor>x * 2\<rfloor> \<le> 1" "0 \<le> \<lfloor>x * 2\<rfloor>" by (simp_all add: floor_eq_iff floor_le_iff)
  from a have y: "1 < 1 / x" by simp
  have "1 / (x * 2) = (1 / x) / 2" by simp
  have "\<lceil>1 / (x * 2)\<rceil> \<le> \<lceil>1 / x\<rceil> - 1"
  proof -
    define c where "c = \<lceil>1 / x\<rceil>"
    have le: "1 / x \<le> of_int c" unfolding c_def by (rule le_of_int_ceiling)
    from y have "2 \<le> c" unfolding c_def by (simp add: le_ceiling_iff)
    then have c2: "(2::rat) \<le> of_int c" by (metis of_int_le_iff of_int_numeral)
    have "1 / (x * 2) = (1 / x) / 2" by simp
    also from le have "\<dots> \<le> of_int c / 2" by (simp only: divide_right_mono zero_le_numeral)
    also from c2 have "\<dots> \<le> of_int c - 1" by simp
    finally have "1 / (x * 2) \<le> of_int (c - 1)" by simp
    then show ?thesis unfolding c_def by (simp only: ceiling_le_iff)
  qed
  moreover have "1 \<le> \<lceil>1 / x\<rceil>"
  proof -
    from a have "0 < 1 / x" by simp
    then have "0 < \<lceil>1 / x\<rceil>" by (simp only: zero_less_ceiling)
    then show ?thesis by linarith
  qed
  ultimately have "nat (2 * \<lceil>1 / (x * 2)\<rceil> + \<lfloor>x * 2\<rfloor>) < nat (2 * \<lceil>1 / x\<rceil> + \<lfloor>x\<rfloor>)"
    using f by linarith
  then show "(x * 2, x) \<in> measure (\<lambda>x. nat (2 * \<lceil>1 / x\<rceil> + \<lfloor>x\<rfloor>))"
    by (simp only: in_measure)
qed

declare expo.simps [simp del]

text \<open>Rounding to binary64: the significand \<open>\<bar>x\<bar> / 2 ^ (expo \<bar>x\<bar> - 52)\<close> becomes an integer.\<close>

definition f64 :: "rat \<Rightarrow> rat" where
  "f64 x =
     (if x = 0 then 0
      else sgn x * of_int (round_half_even (\<bar>x\<bar> / pow2 (expo \<bar>x\<bar> - 52))) * pow2 (expo \<bar>x\<bar> - 52))"

text \<open>
  \<^verbatim>\<open>(df["Wins"] / df["Games"] * 100).round(1)\<close> for one row: the two counts become
  float64, are divided, and the quotient is multiplied by \<^verbatim>\<open>100.0\<close>; \<^verbatim>\<open>round(1)\<close> is
  NumPy's, which multiplies by \<^verbatim>\<open>10.0\<close>, rounds to the nearest integer with ties to
  even (\<^verbatim>\<open>rint\<close>) and divides by \<^verbatim>\<open>10.0\<close>. \<open>Games\<close> is never 0 in a row.
\<close>

definition win_rate :: "int \<Rightarrow> int \<Rightarrow> rat" where
  "win_rate w g =
     (let x1 = f64 (f64 (of_int w) / f64 (of_int g));
          x2 = f64 (x1 * f64 100);
          x3 = f64 (x2 * f64 10)
      in f64 (of_int (round_half_even x3) / f64 10))"

section \<open>The daily aggregator\<close>

text \<open>The value \<^verbatim>\<open>{"games": 0, "wins": 0}\<close> kept for each date.\<close>

record stats =
  games :: int
  wins :: int

text \<open>The dictionary \<^verbatim>\<open>daily\<close>, in insertion order.\<close>

type_synonym daily = "(date \<times> stats) list"

text \<open>
  The statements of the \<^verbatim>\<open>try\<close> block that can raise, in the order of the source.
  \<open>None\<close> is any exception; the bare \<^verbatim>\<open>except\<close> turns it into \<^verbatim>\<open>continue\<close>.
\<close>

text \<open>\<^verbatim>\<open>date = datetime.utcfromtimestamp(g["end_time"]).date()\<close>\<close>

definition game_date :: "json \<Rightarrow> date option" where
  "game_date g =
     (case subscript g ''end_time'' of None \<Rightarrow> None | Some t \<Rightarrow> utcfromtimestamp_date t)"

text \<open>\<^verbatim>\<open>color = "white" if g["white"]["username"].lower() == username else "black"\<close>\<close>

definition game_color :: "json \<Rightarrow> string option" where
  "game_color g =
     (case subscript g ''white'' of None \<Rightarrow> None | Some w \<Rightarrow>
      case subscript w ''username'' of None \<Rightarrow> None | Some u \<Rightarrow>
      case lower_method u of None \<Rightarrow> None | Some ul \<Rightarrow>
        Some (if ul = username then ''white'' else ''black''))"

text \<open>\<^verbatim>\<open>result = g[color]["result"]\<close>\<close>

definition game_result :: "json \<Rightarrow> string \<Rightarrow> json option" where
  "game_result g color =
     (case subscript g color of None \<Rightarrow> None | Some side \<Rightarrow> subscript side ''result'')"

text \<open>\<^verbatim>\<open>win = 1 if result == "win" else 0\<close>\<close>

definition win_of :: "json \<Rightarrow> int" where
  "win_of result = (if result = JStr ''win'' then 1 else 0)"

text \<open>The four statements together: the date and the win increment of a game.\<close>

definition game_entry :: "json \<Rightarrow> (date \<times> int) option" where
  "game_entry g =
     (case game_date g of None \<Rightarrow> None | Some date \<Rightarrow>
      case game_color g of None \<Rightarrow> None | Some color \<Rightarrow>
      case game_result g color of None \<Rightarrow> None | Some result \<Rightarrow>
        Some (date, win_of result))"

text \<open>\<^verbatim>\<open>daily.setdefault(date, {"games": 0, "wins": 0})\<close>\<close>

definition setdefault :: "date \<Rightarrow> daily \<Rightarrow> daily" where
  "setdefault d daily =
     (if map_of daily d = None then daily @ [(d, \<lparr>games = 0, wins = 0\<rparr>)] else daily)"

text \<open>An in-place update of the value stored under \<open>d\<close>.\<close>

definition modify :: "date \<Rightarrow> (stats \<Rightarrow> stats) \<Rightarrow> daily \<Rightarrow> daily" where
  "modify d f daily = map (\<lambda>(k, s). if k = d then (k, f s) else (k, s)) daily"

text \<open>One iteration of \<^verbatim>\<open>for g in games\<close>.\<close>

definition game_step :: "daily \<Rightarrow> json \<Rightarrow> daily" where
  "game_step daily g =
     (case game_entry g of
        None \<Rightarrow> daily
      | Some (date, win) \<Rightarrow>
          modify date (\<lambda>s. s\<lparr>wins := wins s + win\<rparr>)
            (modify date (\<lambda>s. s\<lparr>games := games s + 1\<rparr>)
              (setdefault date daily)))"

definition daily_of :: "json list \<Rightarrow> daily" where
  "daily_of gs = foldl game_step [] gs"

text \<open>
  The two flag texts, as UTF-8: U+26A0 U+FE0F and \<^verbatim>\<open> Overuse\<close>; U+2705 and \<^verbatim>\<open> OK\<close>.
\<close>

definition flag_overuse :: string where
  "flag_overuse =
     [char_of (0xE2::nat), char_of (0x9A::nat), char_of (0xA0::nat),
      char_of (0xEF::nat), char_of (0xB8::nat), char_of (0x8F::nat)] @ '' Overuse''"

definition flag_ok :: string where
  "flag_ok = [char_of (0xE2::nat), char_of (0x9C::nat), char_of (0x85::nat)] @ '' OK''"

text \<open>A row of the data frame, with its five columns.\<close>

record row =
  Date :: date
  Games :: int
  Wins :: int
  Win_Rate :: rat
  Flag :: string

text \<open>
  The frame built from \<^verbatim>\<open>sorted(daily.items())\<close>. The keys of a dictionary are
  distinct, so the order of the items is the order of their dates.
\<close>

definition frame :: "daily \<Rightarrow> row list" where
  "frame daily =
     map (\<lambda>(date, s).
            \<lparr>Date = date, Games = games s, Wins = wins s,
             Win_Rate = win_rate (wins s) (games s),
             Flag = (if games s > 6 then flag_overuse else flag_ok)\<rparr>)
         (sort_key fst daily)"

text \<open>
  \<^verbatim>\<open>extract_daily_stats(games)\<close>: the frame and the lines it prints. The empty frame is
  returned before the two derived columns are added; it has no rows at all.
\<close>

definition extract_daily_stats :: "json list \<Rightarrow> row list \<times> string list" where
  "extract_daily_stats gs =
     (let df = frame (daily_of gs)
      in if df = [] then (df, [''No bullet games found.'']) else (df, []))"

section \<open>Formatting integers\<close>

text \<open>\<^verbatim>\<open>str(n)\<close> for a non-negative \<open>n\<close>: its decimal digits.\<close>

fun digits :: "nat \<Rightarrow> string" where
  "digits n =
     (if n < 10 then [char_of (48 + n)] else digits (n div 10) @ [char_of (48 + n mod 10)])"

declare digits.simps [simp del]

text \<open>\<^verbatim>\<open>f"{i}"\<close> for an \<^verbatim>\<open>int\<close>.\<close>

definition str_int :: "int \<Rightarrow> string" where
  "str_int i = (if i < 0 then ''-'' @ digits (nat (- i)) else digits (nat i))"

text \<open>
  \<^verbatim>\<open>f"{i:02d}"\<close> for an \<^verbatim>\<open>int\<close>: zeros are added after the sign until the text has two
  characters.
\<close>

definition fmt_02d :: "int \<Rightarrow> string" where
  "fmt_02d i =
     (if i < 0 then ''-'' @ digits (nat (- i))
      else if i < 10 then ''0'' @ digits (nat i)
      else digits (nat i))"

section \<open>The game fetcher\<close>

text \<open>
  What \<^verbatim>\<open>requests.get(url, headers=headers)\<close> does is given by the network:
  either the call raises (\<open>Request_raises\<close>, with the text of the exception), or
  it returns a response. Of a response the fetcher uses the status code, the text
  of the \<^verbatim>\<open>HTTPError\<close> that \<^verbatim>\<open>raise_for_status()\<close> builds for it, and the outcome of
  \<^verbatim>\<open>res.json()\<close>: the decoded value, or the text of the exception it raises.
\<close>

datatype body = Not_JSON string | Decoded json

datatype http_result = Request_raises string | Response nat string body

type_synonym network = "string \<Rightarrow> http_result"

text \<open>The name Python gives the type of a value, as its error messages print it.\<close>

fun type_name :: "json \<Rightarrow> string" where
  "type_name JNull = ''NoneType''"
| "type_name (JBool b) = ''bool''"
| "type_name (JInt i) = ''int''"
| "type_name (JFloat x) = ''float''"
| "type_name JNonFinite = ''float''"
| "type_name (JStr s) = ''str''"
| "type_name (JList xs) = ''list''"
| "type_name (JObj kvs) = ''dict''"

definition quoted :: "string \<Rightarrow> string" where
  "quoted s = [char_of (39::nat)] @ s @ [char_of (39::nat)]"

text \<open>
  \<^verbatim>\<open>v.get(k)\<close> and \<^verbatim>\<open>v.get(k, default)\<close>: only a \<^verbatim>\<open>dict\<close> has the method; the sum is
  \<open>Inl\<close> the text of the \<^verbatim>\<open>AttributeError\<close> otherwise.
\<close>

fun get_method :: "json \<Rightarrow> string \<Rightarrow> json \<Rightarrow> string + json" where
  "get_method (JObj kvs) k dflt = Inr (case map_of kvs k of None \<Rightarrow> dflt | Some v \<Rightarrow> v)"
| "get_method v k dflt = Inl (quoted (type_name v) @ '' object has no attribute '' @ quoted ''get'')"

text \<open>
  The elements \<^verbatim>\<open>for g in v\<close> runs through: those of a \<^verbatim>\<open>list\<close>, the keys of a
  \<^verbatim>\<open>dict\<close>, the characters of a \<^verbatim>\<open>str\<close> (each a \<^verbatim>\<open>str\<close>; here one per byte);
  \<^verbatim>\<open>TypeError\<close> for the other values.
\<close>

fun iterate :: "json \<Rightarrow> string + json list" where
  "iterate (JList xs) = Inr xs"
| "iterate (JObj kvs) = Inr (map (\<lambda>kv. JStr (fst kv)) kvs)"
| "iterate (JStr s) = Inr (map (\<lambda>c. JStr [c]) s)"
| "iterate v = Inl (quoted (type_name v) @ '' object is not iterable'')"

text \<open>
  \<^verbatim>\<open>[g for g in games if g.get("time_class") == "bullet"]\<close>: the first element
  without a \<^verbatim>\<open>get\<close> method ends the comprehension with its exception.
\<close>

fun bullet_only :: "json list \<Rightarrow> string + json list" where
  "bullet_only [] = Inr []"
| "bullet_only (g # gs) =
     (case get_method g ''time_class'' JNull of
        Inl e \<Rightarrow> Inl e
      | Inr tc \<Rightarrow>
          (case bullet_only gs of
             Inl e \<Rightarrow> Inl e
           | Inr rest \<Rightarrow> Inr (if tc = JStr ''bullet'' then g # rest else rest)))"

definition url_of :: "string \<Rightarrow> int \<Rightarrow> int \<Rightarrow> string" where
  "url_of user year month =
     ''https://api.chess.com/pub/player/'' @ user @ ''/games/'' @ str_int year @ ''/''
       @ fmt_02d month"

text \<open>
  The body of the \<^verbatim>\<open>try\<close> block: \<open>Inl\<close> the text of the exception raised, of the class
  \<^verbatim>\<open>Exception\<close> in every case, or \<open>Inr\<close> the returned list. \<^verbatim>\<open>raise_for_status()\<close>
  raises for the status codes 400 to 599.
\<close>

definition try_fetch :: "http_result \<Rightarrow> string + json list" where
  "try_fetch r =
     (case r of
        Request_raises e \<Rightarrow> Inl e
      | Response status http_error b \<Rightarrow>
          if 400 \<le> status \<and> status < 600 then Inl http_error
          else (case b of
                  Not_JSON e \<Rightarrow> Inl e
                | Decoded v \<Rightarrow>
                    (case get_method v ''games'' (JList []) of
                       Inl e \<Rightarrow> Inl e
                     | Inr games_value \<Rightarrow>
                         (case iterate games_value of
                            Inl e \<Rightarrow> Inl e
                          | Inr gs \<Rightarrow> bullet_only gs))))"

text \<open>
  \<^verbatim>\<open>fetch_bullet_games(username, year, month)\<close>: the games returned and the lines
  printed.
\<close>

definition fetch_bullet_games ::
  "network \<Rightarrow> string \<Rightarrow> int \<Rightarrow> int \<Rightarrow> json list \<times> string list" where
  "fetch_bullet_games net user year month =
     (case try_fetch (net (url_of user year month)) of
        Inr gs \<Rightarrow> (gs, [])
      | Inl e \<Rightarrow>
          ([], [''Failed to load '' @ str_int year @ ''-'' @ fmt_02d month @ '': '' @ e]))"

section \<open>The two months\<close>

text \<open>
  \<^verbatim>\<open>last_month = (today.year - 1, 12) if today.month == 1 else (today.year, today.month - 1)\<close>
\<close>

definition last_month :: "int \<times> int \<Rightarrow> int \<times> int" where
  "last_month today =
     (if snd today = 1 then (fst today - 1, 12) else (fst today, snd today - 1))"

text \<open>
  \<^verbatim>\<open>games_combined\<close>, with the lines the two calls print; the previous month is
  fetched first. \<open>today\<close> is the year and the month of \<^verbatim>\<open>datetime.utcnow().date()\<close>.
\<close>

definition games_combined :: "network \<Rightarrow> int \<times> int \<Rightarrow> json list \<times> string list" where
  "games_combined net today =
     (let (g1, out1) = fetch_bullet_games net username (fst (last_month today)) (snd (last_month today));
          (g2, out2) = fetch_bullet_games net username (fst today) (snd today)
      in (g1 @ g2, out1 @ out2))"

section \<open>The report\<close>

text \<open>
  The arguments of \<^verbatim>\<open>go.Bar\<close> and \<^verbatim>\<open>go.Scatter\<close>, in the order of the source:
  \<^verbatim>\<open>x\<close>, \<^verbatim>\<open>y\<close>, \<^verbatim>\<open>name\<close>, then \<^verbatim>\<open>marker_color\<close>, \<^verbatim>\<open>text\<close>, \<^verbatim>\<open>textposition\<close>, \<^verbatim>\<open>yaxis\<close>
  for the bars and \<^verbatim>\<open>mode\<close>, the colour of \<^verbatim>\<open>line\<close>, the size of \<^verbatim>\<open>marker\<close>, \<^verbatim>\<open>yaxis\<close>
  for the line.
\<close>

datatype trace =
    Bar (trace_x: "date list") "int list" string "string list" "int list" string string
  | Scatter (trace_x: "date list") "rat list" string string string int string

text \<open>
  A figure: its traces and the keyword arguments given to \<^verbatim>\<open>update_layout\<close>, a
  \<^verbatim>\<open>dict\<close> of strings, ints, floats and further \<^verbatim>\<open>dict\<close>s.
\<close>

record figure =
  fig_data :: "trace list"
  fig_layout :: "(string \<times> json) list"

text \<open>
  The figure of the \<^verbatim>\<open>PLOT\<close> section. The floats \<^verbatim>\<open>0.1\<close> and \<^verbatim>\<open>1.1\<close> of the legend
  are the rationals these literals denote in binary64.
\<close>

definition fig :: "row list \<Rightarrow> figure" where
  "fig df =
     (if df \<noteq> [] then
        \<lparr>fig_data =
           [Bar (map Date df) (map Games df) ''Games per Day''
              (map (\<lambda>x. if x > 6 then ''red'' else ''green'') (map Games df))
              (map Games df) ''auto'' ''y1'',
            Scatter (map Date df) (map Win_Rate df) ''Win Rate (%)''
              ''lines+markers'' ''blue'' 10 ''y2''],
         fig_layout =
           [(''title'', JStr ''Bullet Games and Win Rate per Day''),
            (''height'', JInt 500),
            (''xaxis'', JObj [(''title'', JStr ''Date'')]),
            (''yaxis'', JObj [(''title'', JStr ''Games''), (''side'', JStr ''left'')]),
            (''yaxis2'', JObj [(''title'', JStr ''Win Rate (%)''), (''side'', JStr ''right''),
                               (''overlaying'', JStr ''y'')]),
            (''legend'', JObj [(''x'', JFloat (3602879701896397 / 36028797018963968)),
                               (''y'', JFloat (2476979795053773 / 2251799813685248)),
                               (''orientation'', JStr ''h'')])]\<rparr>
      else
        \<lparr>fig_data = [],
         fig_layout = [(''title'', JStr ''No Bullet Games Found''), (''height'', JInt 500)]\<rparr>)"

text \<open>
  \<^verbatim>\<open>df_table = df.sort_values('Date', ascending=False)\<close>: the rows in descending
  order of their dates. The dates of a frame are distinct, so every sorting
  algorithm gives this list.
\<close>

definition df_table :: "row list \<Rightarrow> row list" where
  "df_table df = sort_key (\<lambda>r. - Date r) df"

text \<open>
  \<^verbatim>\<open>table_html\<close>. The markup pandas writes for a frame is the parameter \<open>to_html\<close>, for
  \<^verbatim>\<open>df_table.to_html(index=False)\<close>.
\<close>

definition table_html :: "(row list \<Rightarrow> string) \<Rightarrow> row list \<Rightarrow> string" where
  "table_html to_html df =
     (if df \<noteq> [] then to_html (df_table df) else ''<p>No data available.</p>'')"

text \<open>
  \<^verbatim>\<open>html_content\<close>, from the markup of the chart and of the table. The dash of the
  heading is U+2013, three bytes in UTF-8.
\<close>

definition html_content :: "string \<Rightarrow> string \<Rightarrow> string" where
  "html_content plot_html table =
     concat (map (\<lambda>l. l @ [char_of (10::nat)])
       [[],
        ''<!DOCTYPE html>'',
        ''<html>'',
        ''<head>'',
        ''    <title>Bullet Chess Dashboard</title>'',
        ''    <style>'',
        ''        body { font-family: Arial, sans-serif; max-width: 1200px; margin: auto; text-align: center; }'',
        ''        table { width: 100%; border-collapse: collapse; margin-top: 20px; }'',
        ''        th, td { border: 1px solid #ddd; padding: 8px; text-align: center; }'',
        ''        th { background-color: #f2f2f2; }'',
        ''        tr:nth-child(even) { background-color: #f9f9f9; }'',
        ''        tr:hover { background-color: #f5f5f5; }'',
        ''    </style>'',
        ''</head>'',
        ''<body>'',
        ''    <h1>Bullet Chess Dashboard ''
          @ [char_of (0xE2::nat), char_of (0x80::nat), char_of (0x93::nat)]
          @ '' Last 2 Months</h1>'',
        ''    '' @ plot_html,
        ''    <h3>Daily Summary Table</h3>'',
        ''    '' @ table,
        ''</body>'',
        ''</html>''])"

text \<open>
  One run of the script. \<open>plot_to_html\<close> is
  \<^verbatim>\<open>pio.to_html(fig, full_html=False, include_plotlyjs='cdn')\<close> and \<open>to_html\<close> the markup
  of a frame; \<open>net\<close> is the network and \<open>today\<close> the current UTC year and month. The
  result is what is printed and what is written to \<^verbatim>\<open>index.html\<close>.
\<close>

record run =
  printed :: "string list"
  index_html :: string

definition script ::
  "(figure \<Rightarrow> string) \<Rightarrow> (row list \<Rightarrow> string) \<Rightarrow> network \<Rightarrow> int \<times> int \<Rightarrow> run" where
  "script plot_to_html to_html net today =
     (let (gs, out1) = games_combined net today;
          out2 = [''Fetched '' @ str_int (int (length gs)) @ '' games''];
          (df, out3) = extract_daily_stats gs
      in \<lparr>printed = out1 @ out2 @ out3 @ [''Generated index.html''],
          index_html = html_content (plot_to_html (fig df)) (table_html to_html df)\<rparr>)"

section \<open>Notions used in the statements\<close>

text \<open>\<^verbatim>\<open>daily.get(d, {"games": 0, "wins": 0})\<close>: the counts of a date, zero when absent.\<close>

definition stats_at :: "daily \<Rightarrow> date \<Rightarrow> stats" where
  "stats_at daily d =
     (case map_of daily d of None \<Rightarrow> \<lparr>games = 0, wins = 0\<rparr> | Some s \<Rightarrow> s)"

text \<open>The invariant of the loop over the games.\<close>

definition sound :: "daily \<Rightarrow> bool" where
  "sound daily =
     (\<forall>d s. map_of daily d = Some s \<longrightarrow> 1 \<le> games s \<and> 0 \<le> wins s \<and> wins s \<le> games s)"

text \<open>
  A game as the archive gives it, for the examples: the names and results of White
  and Black and the end time.
\<close>

definition example_game :: "string \<Rightarrow> string \<Rightarrow> string \<Rightarrow> string \<Rightarrow> int \<Rightarrow> json" where
  "example_game w wr b br t =
     JObj [(''end_time'', JInt t),
           (''white'', JObj [(''username'', JStr w), (''result'', JStr wr)]),
           (''black'', JObj [(''username'', JStr b), (''result'', JStr br)]),
           (''time_class'', JStr ''bullet'')]"

text \<open>Seven games won on 2024-01-01 and six games lost on 2024-01-02.\<close>

definition seven_and_six :: "json list" where
  "seven_and_six =
     replicate 7 (example_game ''cand5d'' ''win'' ''x'' ''resigned'' 1704067200)
       @ replicate 6 (example_game ''x'' ''win'' ''cand5d'' ''timeout'' 1704153600)"


text \<open>\<^verbatim>\<open>isinstance(v, dict)\<close>\<close>

fun is_dict :: "json \<Rightarrow> bool" where
  "is_dict (JObj kvs) = True"
| "is_dict v = False"

text \<open>
  A body the fetcher cannot use: it is not JSON, or the decoded value is not a
  \<^verbatim>\<open>dict\<close>, or what it holds under \<^verbatim>\<open>games\<close> cannot be iterated, or one of the
  elements iterated is not a \<^verbatim>\<open>dict\<close>. A \<^verbatim>\<open>dict\<close> without \<^verbatim>\<open>games\<close> is a month
  without games.
\<close>

definition malformed :: "body \<Rightarrow> bool" where
  "malformed b =
     (case b of
        Not_JSON e \<Rightarrow> True
      | Decoded v \<Rightarrow>
          \<not> is_dict v
          \<or> (case iterate (case subscript v ''games'' of None \<Rightarrow> JList [] | Some gv \<Rightarrow> gv) of
                Inl e \<Rightarrow> True
              | Inr gs \<Rightarrow> \<exists>g \<in> set gs. \<not> is_dict g))"

text \<open>
  The failures of a fetch: the request raises (a transport failure), the response
  has an error status, 400 to 599, for which \<^verbatim>\<open>raise_for_status()\<close> raises, or the
  body is malformed.
\<close>

definition named_failure :: "http_result \<Rightarrow> bool" where
  "named_failure r =
     (case r of
        Request_raises e \<Rightarrow> True
      | Response status http_error b \<Rightarrow> (400 \<le> status \<and> status < 600) \<or> malformed b)"

text \<open>The line printed for a failed fetch, with the text \<open>e\<close> of the exception.\<close>

definition failure_line :: "int \<Rightarrow> int \<Rightarrow> string \<Rightarrow> string" where
  "failure_line year month e =
     ''Failed to load '' @ str_int year @ ''-'' @ fmt_02d month @ '': '' @ e"

text \<open>
  A network on which the request for March 2024 fails and every other month has one
  bullet game and one blitz game.
\<close>

definition march_down :: network where
  "march_down url =
     (if url = ''https://api.chess.com/pub/player/cand5d/games/2024/03''
      then Request_raises ''connection refused''
      else Response 200 []
             (Decoded (JObj [(''games'',
                JList [example_game ''cand5d'' ''win'' ''x'' ''resigned'' 1704067200,
                       JObj [(''time_class'', JStr ''blitz'')]])])))"

text \<open>A network on which every request is answered by status 503.\<close>

definition all_down :: network where
  "all_down url = Response 503 ''503 Server Error'' (Not_JSON ''Expecting value'')"

text \<open>A stand-in for the chart renderer, which writes the title of the figure.\<close>

definition title_div :: "figure \<Rightarrow> string" where
  "title_div f =
     (case map_of (fig_layout f) ''title'' of
        Some (JStr t) \<Rightarrow> ''<div>'' @ t @ ''</div>''
      | _ \<Rightarrow> ''<div></div>'')"

text \<open>
  The games of a list that the loop counts for a date, and those it counts as won
  there.
\<close>

definition counted_on :: "date \<Rightarrow> json \<Rightarrow> bool" where
  "counted_on d g = (map_option fst (game_entry g) = Some d)"

definition won_on :: "date \<Rightarrow> json \<Rightarrow> bool" where
  "won_on d g = (game_entry g = Some (d, 1))"

text \<open>
  Equality of two names up to the case of their ASCII letters, said without
  \<open>lower\<close>: two characters are the same letter when they are equal or one is a capital
  and the other is the small letter 32 code points above it.
\<close>

definition is_upper :: "char \<Rightarrow> bool" where
  "is_upper c = (65 \<le> (of_char c :: nat) \<and> (of_char c :: nat) \<le> 90)"

definition same_letter :: "char \<Rightarrow> char \<Rightarrow> bool" where
  "same_letter a b =
     (a = b \<or> (is_upper a \<and> (of_char b :: nat) = of_char a + 32)
            \<or> (is_upper b \<and> (of_char a :: nat) = of_char b + 32))"

definition eq_ignoring_case :: "string \<Rightarrow> string \<Rightarrow> bool" where
  "eq_ignoring_case s t = list_all2 same_letter s t"

text \<open>
  \<^verbatim>\<open>round(x, 1)\<close> as the specification writes it: \<open>x\<close> rounded to the nearest tenth, a
  tie going to the even tenth (\<open>round1\<close>) or upwards (\<open>round1_up\<close>).
\<close>

definition round_half_up :: "rat \<Rightarrow> int" where
  "round_half_up x = \<lfloor>x + 1 / 2\<rfloor>"

definition round1 :: "rat \<Rightarrow> rat" where
  "round1 x = of_int (round_half_even (x * 10)) / 10"

definition round1_up :: "rat \<Rightarrow> rat" where
  "round1_up x = of_int (round_half_up (x * 10)) / 10"

text \<open>
  \<open>100 * w / g\<close> lies exactly halfway between two tenths: \<open>2000 * w / g\<close> is an odd
  integer.
\<close>

definition exact_half :: "int \<Rightarrow> int \<Rightarrow> bool" where
  "exact_half w g = ((2000 * w) mod g = 0 \<and> odd ((2000 * w) div g))"

text \<open>Three games won and four lost on 2024-01-01.\<close>

definition three_of_seven :: "json list" where
  "three_of_seven =
     replicate 3 (example_game ''cand5d'' ''win'' ''x'' ''resigned'' 1704067200)
       @ replicate 4 (example_game ''x'' ''win'' ''cand5d'' ''timeout'' 1704067200)"

text \<open>Twenty-three games won and fifty-seven lost on 2024-01-01.\<close>

definition twenty_three_of_eighty :: "json list" where
  "twenty_three_of_eighty =
     replicate 23 (example_game ''cand5d'' ''win'' ''x'' ''resigned'' 1704067200)
       @ replicate 57 (example_game ''x'' ''win'' ''cand5d'' ''timeout'' 1704067200)"

section \<open>The dictionary of daily counts\<close>

lemma map_of_setdefault:
  "map_of (setdefault d daily) k =
     (if k = d \<and> map_of daily d = None then Some \<lparr>games = 0, wins = 0\<rparr> else map_of daily k)"
  by (auto simp: setdefault_def map_add_def split: option.splits)

lemma map_of_modify:
  "map_of (modify d f daily) k =
     (if k = d then map_option f (map_of daily d) else map_of daily k)"
  by (induction daily) (auto simp: modify_def)

lemma keys_modify: "map fst (modify d f daily) = map fst daily"
  by (induction daily) (auto simp: modify_def)

lemma keys_setdefault:
  "map fst (setdefault d daily) =
     (if map_of daily d = None then map fst daily @ [d] else map fst daily)"
  by (simp add: setdefault_def)

lemma game_step_skip: "game_entry g = None \<Longrightarrow> game_step daily g = daily"
  by (simp add: game_step_def)

lemma game_step_lookup:
  "game_entry g = Some (date, win) \<Longrightarrow>
   map_of (game_step daily g) k =
     (if k = date
      then Some \<lparr>games = games (stats_at daily date) + 1,
                 wins = wins (stats_at daily date) + win\<rparr>
      else map_of daily k)"
  by (auto simp: game_step_def map_of_modify map_of_setdefault stats_at_def
      split: option.splits)

lemma stats_at_game_step:
  "game_entry g = Some (d, w) \<Longrightarrow>
   stats_at (game_step daily g) k =
     (if k = d
      then \<lparr>games = games (stats_at daily d) + 1, wins = wins (stats_at daily d) + w\<rparr>
      else stats_at daily k)"
  by (simp add: stats_at_def [of "game_step daily g"] game_step_lookup) (simp add: stats_at_def)

text \<open>The keys stay distinct, as those of a dictionary are.\<close>

lemma game_step_distinct:
  "distinct (map fst daily) \<Longrightarrow> distinct (map fst (game_step daily g))"
  by (auto simp: game_step_def keys_modify keys_setdefault map_of_eq_None_iff
      split: option.splits)

lemma foldl_game_step_distinct:
  "distinct (map fst daily) \<Longrightarrow> distinct (map fst (foldl game_step daily gs))"
  by (induction gs arbitrary: daily) (auto simp: game_step_distinct)

lemma daily_of_distinct: "distinct (map fst (daily_of gs))"
  by (simp add: daily_of_def foldl_game_step_distinct)

lemma game_entry_win: "game_entry g = Some (d, w) \<Longrightarrow> w = 0 \<or> w = 1"
  by (auto simp: game_entry_def win_of_def split: option.splits if_splits)

lemma stats_at_bounds:
  "sound daily \<Longrightarrow>
   0 \<le> games (stats_at daily d) \<and> 0 \<le> wins (stats_at daily d)
     \<and> wins (stats_at daily d) \<le> games (stats_at daily d)"
  by (auto simp: sound_def stats_at_def split: option.splits) fastforce+

lemma game_step_sound: "sound daily \<Longrightarrow> sound (game_step daily g)"
proof (cases "game_entry g")
  case None
  assume "sound daily"
  with None show ?thesis by (simp add: game_step_skip)
next
  case (Some e)
  assume a: "sound daily"
  obtain date win where e: "e = (date, win)" by (cases e)
  from Some e have w: "win = 0 \<or> win = 1" by (auto dest: game_entry_win)
  from stats_at_bounds [OF a, of date] w a show ?thesis
    unfolding sound_def using Some e
    by (auto simp: game_step_lookup split: if_splits)
qed

lemma foldl_game_step_sound: "sound daily \<Longrightarrow> sound (foldl game_step daily gs)"
  by (induction gs arbitrary: daily) (auto simp: game_step_sound)

lemma sound_Nil: "sound []"
  by (simp add: sound_def)

lemma daily_of_sound: "sound (daily_of gs)"
  unfolding daily_of_def by (rule foldl_game_step_sound [OF sound_Nil])

lemma daily_of_skip:
  "game_entry g = None \<Longrightarrow> daily_of (xs @ g # ys) = daily_of (xs @ ys)"
  by (simp add: daily_of_def game_step_skip)

lemma daily_of_snoc: "daily_of (gs @ [g]) = game_step (daily_of gs) g"
  by (simp add: daily_of_def)

lemma stats_at_daily_of:
  "stats_at (daily_of gs) d =
     \<lparr>games = int (length (filter (counted_on d) gs)),
      wins = int (length (filter (won_on d) gs))\<rparr>"
proof (induction gs rule: rev_induct)
  case Nil
  show ?case by (simp add: daily_of_def stats_at_def)
next
  case (snoc g gs)
  show ?case
  proof (cases "game_entry g")
    case None
    with snoc show ?thesis
      by (simp add: daily_of_snoc game_step_skip counted_on_def won_on_def)
  next
    case (Some e)
    obtain d' w where e: "e = (d', w)" by (cases e)
    with Some have w: "w = 0 \<or> w = 1" by (auto dest: game_entry_win)
    from Some e snoc w show ?thesis
      by (auto simp: daily_of_snoc stats_at_game_step counted_on_def won_on_def)
  qed
qed

section \<open>The rows of the frame\<close>

lemma frame_row:
  "r \<in> set (frame daily) \<Longrightarrow>
   \<exists>d s. (d, s) \<in> set daily \<and> Date r = d \<and> Games r = games s \<and> Wins r = wins s
     \<and> Win_Rate r = win_rate (wins s) (games s)
     \<and> Flag r = (if games s > 6 then flag_overuse else flag_ok)"
  by (auto simp: frame_def)

lemma fst_extract_daily_stats: "fst (extract_daily_stats gs) = frame (daily_of gs)"
  by (simp add: extract_daily_stats_def Let_def)

lemma row_of_extract:
  assumes "r \<in> set (fst (extract_daily_stats gs))"
  shows "\<exists>s. map_of (daily_of gs) (Date r) = Some s \<and> Games r = games s \<and> Wins r = wins s
     \<and> Win_Rate r = win_rate (wins s) (games s)
     \<and> Flag r = (if games s > 6 then flag_overuse else flag_ok)"
proof -
  from assms obtain d s where ds: "(d, s) \<in> set (daily_of gs)"
    and r: "Date r = d" "Games r = games s" "Wins r = wins s"
      "Win_Rate r = win_rate (wins s) (games s)"
      "Flag r = (if games s > 6 then flag_overuse else flag_ok)"
    unfolding fst_extract_daily_stats by (blast dest: frame_row)
  from ds daily_of_distinct [of gs] have "map_of (daily_of gs) d = Some s" by simp
  with r show ?thesis by auto
qed

lemma row_counts:
  assumes "r \<in> set (fst (extract_daily_stats gs))"
  shows "Games r = int (length (filter (counted_on (Date r)) gs))
    \<and> Wins r = int (length (filter (won_on (Date r)) gs))
    \<and> Win_Rate r = win_rate (Wins r) (Games r)"
proof -
  from row_of_extract [OF assms] obtain s where
    s: "map_of (daily_of gs) (Date r) = Some s" "Games r = games s" "Wins r = wins s"
      "Win_Rate r = win_rate (wins s) (games s)"
    by blast
  then have "stats_at (daily_of gs) (Date r) = s" by (simp add: stats_at_def)
  with s stats_at_daily_of [of gs "Date r"] show ?thesis by auto
qed

lemma date_has_row:
  "(\<exists>r \<in> set (fst (extract_daily_stats gs)). Date r = d) \<longleftrightarrow> (\<exists>g \<in> set gs. counted_on d g)"
proof -
  have "(\<exists>r \<in> set (frame (daily_of gs)). Date r = d) \<longleftrightarrow> d \<in> fst ` set (daily_of gs)"
    by (force simp: frame_def)
  also have "\<dots> \<longleftrightarrow> map_of (daily_of gs) d \<noteq> None"
    by (simp add: map_of_eq_None_iff)
  also have "\<dots> \<longleftrightarrow> games (stats_at (daily_of gs) d) \<noteq> 0"
  proof (cases "map_of (daily_of gs) d")
    case None
    then show ?thesis by (simp add: stats_at_def)
  next
    case (Some s)
    with daily_of_sound [of gs] have "1 \<le> games s" by (simp add: sound_def)
    with Some show ?thesis by (simp add: stats_at_def)
  qed
  also have "\<dots> \<longleftrightarrow> filter (counted_on d) gs \<noteq> []"
    by (simp add: stats_at_daily_of)
  also have "\<dots> \<longleftrightarrow> (\<exists>g \<in> set gs. counted_on d g)"
    by (simp add: filter_empty_conv)
  finally show ?thesis by (simp add: fst_extract_daily_stats)
qed

text \<open>
  C1. Every row the aggregator produces, from any list of games, has
  \<open>0 \<le> Wins \<le> Games\<close> and \<open>Games \<ge> 1\<close>: its \<open>Games\<close> is the number of games of the list
  counted for its date, and a row exists only for a date on which a game was counted.
\<close>

theorem rows_wins_le_games:
  "r \<in> set (fst (extract_daily_stats gs)) \<Longrightarrow>
   0 \<le> Wins r \<and> Wins r \<le> Games r \<and> 1 \<le> Games r
     \<and> Games r = int (length (filter (counted_on (Date r)) gs))"
proof -
  assume r: "r \<in> set (fst (extract_daily_stats gs))"
  from row_of_extract [OF r] obtain s where
    s: "map_of (daily_of gs) (Date r) = Some s" and g: "Games r = games s"
    and w: "Wins r = wins s"
    by blast
  from daily_of_sound [of gs] s have "1 \<le> games s \<and> 0 \<le> wins s \<and> wins s \<le> games s"
    unfolding sound_def by blast
  with g w have "0 \<le> Wins r \<and> Wins r \<le> Games r \<and> 1 \<le> Games r" by simp
  with row_counts [OF r] show ?thesis by blast
qed

theorem rows_wins_le_games_witness:
  "\<lparr>Date = 19723, Games = 2, Wins = 1, Win_Rate = win_rate 1 2, Flag = flag_ok\<rparr>
     \<in> set (fst (extract_daily_stats
          [example_game ''Cand5D'' ''win'' ''x'' ''checkmated'' 1704067200,
           example_game ''y'' ''win'' ''cand5d'' ''timeout'' 1704067260]))
   \<and> (0::int) \<le> 1 \<and> (1::int) \<le> 2 \<and> (1::int) \<le> 2"
proof -
  have d: "daily_of
          [example_game ''Cand5D'' ''win'' ''x'' ''checkmated'' 1704067200,
           example_game ''y'' ''win'' ''cand5d'' ''timeout'' 1704067260]
      = [(19723, \<lparr>games = 2, wins = 1\<rparr>)]"
    by code_simp
  have h: "\<lparr>Date = 19723, Games = 2, Wins = 1, Win_Rate = win_rate 1 2, Flag = flag_ok\<rparr>
     \<in> set (fst (extract_daily_stats
          [example_game ''Cand5D'' ''win'' ''x'' ''checkmated'' 1704067200,
           example_game ''y'' ''win'' ''cand5d'' ''timeout'' 1704067260]))"
    by (simp add: fst_extract_daily_stats frame_def d)
  from rows_wins_le_games [OF h] h show ?thesis by simp
qed

section \<open>Sides, skipped games and wins\<close>

lemma game_entry_fails:
  "game_date g = None \<or> game_color g = None
     \<or> (\<exists>c. game_color g = Some c \<and> game_result g c = None)
   \<Longrightarrow> game_entry g = None"
  by (auto simp: game_entry_def split: option.splits)

lemma game_entry_Some:
  "game_date g = Some d \<Longrightarrow> game_color g = Some c \<Longrightarrow> game_result g c = Some r \<Longrightarrow>
   game_entry g = Some (d, win_of r)"
  by (simp add: game_entry_def)

lemma game_color_white_username:
  "subscript g ''white'' = Some w \<Longrightarrow> subscript w ''username'' = Some (JStr u) \<Longrightarrow>
   game_color g = Some (if lower u = username then ''white'' else ''black'')"
  by (simp add: game_color_def)

lemma username_lower: "username = lower ''cand5d''"
  by (simp add: username_def)

lemma char_of_small: "n < 256 \<Longrightarrow> (char_of (n::nat) = c) = (of_char c = n)"
  by (auto simp: char_of_eq_iff take_bit_eq_mod)

lemma of_char_inj: "((of_char a :: nat) = of_char b) = (a = b)"
  by (simp add: of_char_eq_iff)

lemma lower_char_eq_iff: "lower_char a = lower_char b \<longleftrightarrow> same_letter a b"
proof -
  have a: "(of_char a :: nat) < 256" and b: "(of_char b :: nat) < 256" by simp_all
  show ?thesis
    unfolding lower_char_def same_letter_def is_upper_def Let_def
    using a b by (auto simp: char_of_small of_char_inj eq_commute [of _ "char_of _"])
qed

lemma lower_eq_iff: "lower s = lower t \<longleftrightarrow> eq_ignoring_case s t"
  unfolding lower_def eq_ignoring_case_def
proof (induction s arbitrary: t)
  case Nil
  show ?case by auto
next
  case (Cons c s)
  show ?case by (cases t) (auto simp: Cons.IH lower_char_eq_iff)
qed

text \<open>
  C3. The side of the tracked player is found by a comparison of the name of White
  with the configured name that ignores the case of the letters: White is taken
  exactly when the two names are equal up to case, so that \<^verbatim>\<open>Cand5D\<close> is \<^verbatim>\<open>cand5d\<close>
  and \<^verbatim>\<open>Cand5E\<close> is not. A game whose date, side or result cannot be read is skipped:
  the aggregation of the list with it is the aggregation of the list without it.
\<close>

theorem side_ignores_case_and_bad_games_skipped:
  "(subscript g ''white'' = Some w \<and> subscript w ''username'' = Some (JStr u) \<longrightarrow>
      game_color g = Some (if lower u = lower ''cand5d'' then ''white'' else ''black'')
      \<and> game_color g = Some (if eq_ignoring_case u ''cand5d'' then ''white'' else ''black''))
   \<and> (lower s = lower t \<longleftrightarrow> eq_ignoring_case s t)
   \<and> (game_date g' = None \<or> game_color g' = None
        \<or> (\<exists>c. game_color g' = Some c \<and> game_result g' c = None) \<longrightarrow>
      extract_daily_stats (xs @ g' # ys) = extract_daily_stats (xs @ ys))"
proof (intro conjI impI)
  assume a: "subscript g ''white'' = Some w \<and> subscript w ''username'' = Some (JStr u)"
  then show "game_color g = Some (if lower u = lower ''cand5d'' then ''white'' else ''black'')"
    by (simp add: game_color_white_username username_lower)
  then show "game_color g
      = Some (if eq_ignoring_case u ''cand5d'' then ''white'' else ''black'')"
    by (simp only: lower_eq_iff)
next
  show "lower s = lower t \<longleftrightarrow> eq_ignoring_case s t" by (rule lower_eq_iff)
next
  assume "game_date g' = None \<or> game_color g' = None
      \<or> (\<exists>c. game_color g' = Some c \<and> game_result g' c = None)"
  then have "game_entry g' = None" by (rule game_entry_fails)
  then show "extract_daily_stats (xs @ g' # ys) = extract_daily_stats (xs @ ys)"
    by (simp add: extract_daily_stats_def daily_of_skip)
qed

theorem side_ignores_case_and_bad_games_skipped_witness:
  "subscript (example_game ''Cand5D'' ''win'' ''x'' ''checkmated'' 1704067200) ''white''
     = Some (JObj [(''username'', JStr ''Cand5D''), (''result'', JStr ''win'')])
   \<and> eq_ignoring_case ''Cand5D'' ''cand5d''
   \<and> game_color (example_game ''Cand5D'' ''win'' ''x'' ''checkmated'' 1704067200) = Some ''white''
   \<and> subscript (example_game ''Cand5E'' ''win'' ''x'' ''checkmated'' 1704067200) ''white''
     = Some (JObj [(''username'', JStr ''Cand5E''), (''result'', JStr ''win'')])
   \<and> \<not> eq_ignoring_case ''Cand5E'' ''cand5d''
   \<and> game_color (example_game ''Cand5E'' ''win'' ''x'' ''checkmated'' 1704067200) = Some ''black''
   \<and> lower ''ABCxyz09_Z@['' = ''abcxyz09_z@[''
   \<and> game_color (JObj [(''end_time'', JInt 1704067200)]) = None
   \<and> extract_daily_stats
        ([example_game ''Cand5D'' ''win'' ''x'' ''checkmated'' 1704067200]
           @ JObj [(''end_time'', JInt 1704067200)]
           # [example_game ''y'' ''win'' ''cand5d'' ''timeout'' 1704240000])
     = extract_daily_stats
        ([example_game ''Cand5D'' ''win'' ''x'' ''checkmated'' 1704067200]
           @ [example_game ''y'' ''win'' ''cand5d'' ''timeout'' 1704240000])"
proof -
  let ?g = "example_game ''Cand5D'' ''win'' ''x'' ''checkmated'' 1704067200"
  let ?w = "JObj [(''username'', JStr ''Cand5D''), (''result'', JStr ''win'')]"
  let ?g' = "example_game ''Cand5E'' ''win'' ''x'' ''checkmated'' 1704067200"
  let ?w' = "JObj [(''username'', JStr ''Cand5E''), (''result'', JStr ''win'')]"
  let ?bad = "JObj [(''end_time'', JInt 1704067200)]"
  let ?ys = "[example_game ''y'' ''win'' ''cand5d'' ''timeout'' 1704240000]"
  have h1: "subscript ?g ''white'' = Some ?w" by code_simp
  have h2: "subscript ?w ''username'' = Some (JStr ''Cand5D'')" by code_simp
  have h3: "game_color ?bad = None" by code_simp
  have h4: "subscript ?g' ''white'' = Some ?w'" by code_simp
  have h5: "subscript ?w' ''username'' = Some (JStr ''Cand5E'')" by code_simp
  have e1: "eq_ignoring_case ''Cand5D'' ''cand5d''" by code_simp
  have e2: "\<not> eq_ignoring_case ''Cand5E'' ''cand5d''" by code_simp
  have l: "lower ''ABCxyz09_Z@['' = ''abcxyz09_z@[''" by code_simp
  from side_ignores_case_and_bad_games_skipped [of ?g ?w "''Cand5D''" "''Cand5D''" "''cand5d''" ?bad "[?g]" ?ys]
    h1 h2 h3 e1
  have a: "game_color ?g = Some ''white''"
    and s: "extract_daily_stats ([?g] @ ?bad # ?ys) = extract_daily_stats ([?g] @ ?ys)"
    by simp_all
  from side_ignores_case_and_bad_games_skipped [of ?g' ?w' "''Cand5E''" "''Cand5E''" "''cand5d''" ?bad "[]" "[]"]
    h4 h5 e2
  have b: "game_color ?g' = Some ''black''" by simp
  from h1 h4 h3 e1 e2 l a b s show ?thesis by (intro conjI)
qed

text \<open>
  C4. A game that is counted adds one to the games of its date, and adds one to the
  wins of its date exactly when the result of the tracked side is the string
  \<^verbatim>\<open>win\<close>; with any other result the wins stay as they were.
\<close>

theorem win_iff_result_is_win:
  assumes "game_date g = Some d" and "game_color g = Some c" and "game_result g c = Some r"
  shows "games (stats_at (game_step daily g) d) = games (stats_at daily d) + 1
    \<and> wins (stats_at (game_step daily g) d)
        = wins (stats_at daily d) + (if r = JStr ''win'' then 1 else 0)
    \<and> (wins (stats_at (game_step daily g) d) = wins (stats_at daily d) + 1
         \<longleftrightarrow> r = JStr ''win'')
    \<and> (r \<noteq> JStr ''win'' \<longrightarrow>
         wins (stats_at (game_step daily g) d) = wins (stats_at daily d))"
  using game_entry_Some [OF assms] by (simp add: stats_at_game_step win_of_def)

theorem win_iff_result_is_win_witness:
  "game_date (example_game ''cand5d'' ''checkmated'' ''x'' ''win'' 1704067200) = Some 19723
   \<and> game_color (example_game ''cand5d'' ''checkmated'' ''x'' ''win'' 1704067200) = Some ''white''
   \<and> game_result (example_game ''cand5d'' ''checkmated'' ''x'' ''win'' 1704067200) ''white''
       = Some (JStr ''checkmated'')
   \<and> games (stats_at (game_step [(19723, \<lparr>games = 3, wins = 2\<rparr>)]
        (example_game ''cand5d'' ''checkmated'' ''x'' ''win'' 1704067200)) 19723) = 4
   \<and> wins (stats_at (game_step [(19723, \<lparr>games = 3, wins = 2\<rparr>)]
        (example_game ''cand5d'' ''checkmated'' ''x'' ''win'' 1704067200)) 19723) = 2"
proof -
  let ?g = "example_game ''cand5d'' ''checkmated'' ''x'' ''win'' 1704067200"
  have h1: "game_date ?g = Some 19723" by code_simp
  have h2: "game_color ?g = Some ''white''" by code_simp
  have h3: "game_result ?g ''white'' = Some (JStr ''checkmated'')" by code_simp
  have s: "stats_at [(19723, \<lparr>games = 3, wins = 2\<rparr>)] 19723 = \<lparr>games = 3, wins = 2\<rparr>"
    by (simp add: stats_at_def)
  from win_iff_result_is_win [OF h1 h2 h3, of "[(19723, \<lparr>games = 3, wins = 2\<rparr>)]"] h1 h2 h3 s
  show ?thesis by simp
qed

lemma flags_differ: "flag_overuse \<noteq> flag_ok"
  by code_simp

text \<open>
  C5. A row carries the overuse text exactly when its games exceed 6, and the OK
  text otherwise: six games give OK, seven give Overuse.
\<close>

theorem flag_overuse_iff_more_than_six:
  "r \<in> set (fst (extract_daily_stats gs)) \<Longrightarrow>
   (Flag r = flag_overuse \<longleftrightarrow> Games r > 6) \<and> (Flag r = flag_ok \<longleftrightarrow> \<not> Games r > 6)"
  using flags_differ by (auto dest!: row_of_extract split: if_splits)

lemma seven_and_six_daily:
  "daily_of seven_and_six
     = [(19723, \<lparr>games = 7, wins = 7\<rparr>), (19724, \<lparr>games = 6, wins = 0\<rparr>)]"
  by code_simp

lemma seven_and_six_rows:
  "fst (extract_daily_stats seven_and_six) =
     [\<lparr>Date = 19723, Games = 7, Wins = 7, Win_Rate = win_rate 7 7, Flag = flag_overuse\<rparr>,
      \<lparr>Date = 19724, Games = 6, Wins = 0, Win_Rate = win_rate 0 6, Flag = flag_ok\<rparr>]"
  by (simp add: fst_extract_daily_stats frame_def seven_and_six_daily)

theorem flag_overuse_iff_more_than_six_witness:
  "\<lparr>Date = 19723, Games = 7, Wins = 7, Win_Rate = win_rate 7 7, Flag = flag_overuse\<rparr>
     \<in> set (fst (extract_daily_stats seven_and_six))
   \<and> \<lparr>Date = 19724, Games = 6, Wins = 0, Win_Rate = win_rate 0 6, Flag = flag_ok\<rparr>
     \<in> set (fst (extract_daily_stats seven_and_six))
   \<and> flag_overuse \<noteq> flag_ok"
proof -
  let ?r7 = "\<lparr>Date = 19723, Games = 7, Wins = 7, Win_Rate = win_rate 7 7,
              Flag = flag_overuse\<rparr>"
  let ?r6 = "\<lparr>Date = 19724, Games = 6, Wins = 0, Win_Rate = win_rate 0 6, Flag = flag_ok\<rparr>"
  have h7: "?r7 \<in> set (fst (extract_daily_stats seven_and_six))"
    by (simp add: seven_and_six_rows)
  have h6: "?r6 \<in> set (fst (extract_daily_stats seven_and_six))"
    by (simp add: seven_and_six_rows)
  from flag_overuse_iff_more_than_six [OF h6] have "flag_ok \<noteq> flag_overuse" by simp
  with h7 h6 show ?thesis by simp
qed



section \<open>The order of the rows\<close>











section \<open>The previous month\<close>

text \<open>
  C9. The month before January of a year is December of the year before, and the
  month before any other month is the month before it in the same year; so the
  month before (2025, 1) is (2024, 12) and not (2025, 0). For a month from 1 to 12
  the result is again a month from 1 to 12, one month earlier.
\<close>

theorem last_month_rolls_over_january:
  "last_month (y, m) = (if m = 1 then (y - 1, 12) else (y, m - 1))
   \<and> last_month (2025, 1) = (2024, 12)
   \<and> last_month (2025, 1) \<noteq> (2025, 0)
   \<and> (1 \<le> m \<and> m \<le> 12 \<longrightarrow>
        1 \<le> snd (last_month (y, m)) \<and> snd (last_month (y, m)) \<le> 12
        \<and> 12 * fst (last_month (y, m)) + snd (last_month (y, m)) = 12 * y + m - 1)"
  by (simp add: last_month_def)

theorem last_month_rolls_over_january_witness:
  "last_month (2024, 3) = (2024, 2) \<and> (1::int) \<le> 3 \<and> (3::int) \<le> 12
   \<and> 12 * fst (last_month (2024, 3)) + snd (last_month (2024, 3)) = 12 * 2024 + 3 - 1"
  using last_month_rolls_over_january [of 2024 3] by simp

section \<open>Failed fetches\<close>

lemma get_method_raises: "(\<exists>e. get_method v k d = Inl e) \<longleftrightarrow> \<not> is_dict v"
  by (cases v) simp_all

lemma get_method_dict:
  "is_dict v \<Longrightarrow>
   get_method v k d = Inr (case subscript v k of None \<Rightarrow> d | Some x \<Rightarrow> x)"
  by (cases v) simp_all

lemma bullet_only_raises: "(\<exists>e. bullet_only gs = Inl e) \<longleftrightarrow> (\<exists>g \<in> set gs. \<not> is_dict g)"
proof (induction gs)
  case Nil
  show ?case by simp
next
  case (Cons g gs)
  show ?case
  proof (cases "is_dict g")
    case True
    then obtain tc where "get_method g ''time_class'' JNull = Inr tc"
      by (auto simp: get_method_dict)
    with True Cons.IH show ?thesis by (auto split: sum.splits)
  next
    case False
    then obtain e where "get_method g ''time_class'' JNull = Inl e"
      using get_method_raises by blast
    with False show ?thesis by auto
  qed
qed

lemma decoded_raises:
  "(\<exists>e. (case get_method v ''games'' (JList []) of
            Inl e \<Rightarrow> Inl e
          | Inr gv \<Rightarrow> (case iterate gv of Inl e \<Rightarrow> Inl e | Inr gs \<Rightarrow> bullet_only gs)) = Inl e)
   \<longleftrightarrow> malformed (Decoded v)"
proof (cases "is_dict v")
  case False
  then obtain e where "get_method v ''games'' (JList []) = Inl e"
    using get_method_raises by blast
  with False show ?thesis by (simp add: malformed_def)
next
  case True
  let ?gv = "case subscript v ''games'' of None \<Rightarrow> JList [] | Some x \<Rightarrow> x"
  from True have g: "get_method v ''games'' (JList []) = Inr ?gv"
    by (rule get_method_dict)
  show ?thesis
  proof (cases "iterate ?gv")
    case (Inl e)
    with True g show ?thesis by (simp add: malformed_def)
  next
    case (Inr gs)
    with True g bullet_only_raises [of gs] show ?thesis by (simp add: malformed_def)
  qed
qed

lemma named_failure_iff: "named_failure r \<longleftrightarrow> (\<exists>e. try_fetch r = Inl e)"
proof (cases r)
  case (Request_raises e)
  then show ?thesis by (simp add: try_fetch_def named_failure_def)
next
  case (Response status he b)
  show ?thesis
  proof (cases "400 \<le> status \<and> status < 600")
    case True
    with Response show ?thesis by (simp add: try_fetch_def named_failure_def)
  next
    case False
    show ?thesis
    proof (cases b)
      case (Not_JSON e)
      with Response False show ?thesis
        by (simp add: try_fetch_def named_failure_def malformed_def)
    next
      case (Decoded v)
      with Response False decoded_raises [of v] show ?thesis
        by (auto simp: try_fetch_def named_failure_def)
    qed
  qed
qed

lemma named_failure_raises: "named_failure r \<Longrightarrow> \<exists>e. try_fetch r = Inl e"
  by (simp add: named_failure_iff)

lemma fetch_raises:
  "try_fetch (net (url_of user y m)) = Inl e \<Longrightarrow>
   fetch_bullet_games net user y m = ([], [failure_line y m e])"
  by (simp add: fetch_bullet_games_def failure_line_def)

lemma fetch_returns:
  "try_fetch (net (url_of user y m)) = Inr gs \<Longrightarrow> fetch_bullet_games net user y m = (gs, [])"
  by (simp add: fetch_bullet_games_def)

lemma fetch_total:
  "(\<exists>gs. fetch_bullet_games net user y m = (gs, []))
   \<or> (\<exists>e. fetch_bullet_games net user y m = ([], [failure_line y m e]))"
  by (cases "try_fetch (net (url_of user y m))") (auto simp: fetch_raises fetch_returns)

lemma games_combined_pair:
  "games_combined net (y, m) =
     (fst (fetch_bullet_games net username (fst (last_month (y, m))) (snd (last_month (y, m))))
        @ fst (fetch_bullet_games net username y m),
      snd (fetch_bullet_games net username (fst (last_month (y, m))) (snd (last_month (y, m))))
        @ snd (fetch_bullet_games net username y m))"
  by (simp add: games_combined_def split_def Let_def)

lemma march_down_facts:
  "named_failure (march_down (url_of username 2024 3))
   \<and> try_fetch (march_down (url_of username 2024 2))
       = Inr [example_game ''cand5d'' ''win'' ''x'' ''resigned'' 1704067200]
   \<and> last_month (2024, 3) = (2024, 2)
   \<and> fetch_bullet_games march_down username 2024 3
       = ([], [''Failed to load 2024-03: connection refused''])"
  by code_simp

text \<open>
  C7. When the request raises, the status is an error status or the body is
  malformed, the fetcher prints one line naming the year and the month and returns
  the empty list; in every other case it returns a list and prints nothing, so it
  returns in all cases. When one of the two monthly fetches fails and the other
  returns, the combined games are those of the month that returned.
\<close>

theorem failed_fetch_logged_and_empty:
  "(named_failure (net (url_of user y m)) \<longrightarrow>
      (\<exists>e. fetch_bullet_games net user y m = ([], [failure_line y m e])))
   \<and> (\<not> named_failure (net (url_of user y m)) \<longrightarrow>
      (\<exists>gs. fetch_bullet_games net user y m = (gs, [])))
   \<and> (named_failure (net (url_of username (fst (last_month (y, m))) (snd (last_month (y, m)))))
        \<and> try_fetch (net (url_of username y m)) = Inr gs \<longrightarrow>
      (\<exists>e. games_combined net (y, m)
             = (gs, [failure_line (fst (last_month (y, m))) (snd (last_month (y, m))) e])))
   \<and> (try_fetch (net (url_of username (fst (last_month (y, m))) (snd (last_month (y, m)))))
           = Inr gs
        \<and> named_failure (net (url_of username y m)) \<longrightarrow>
      (\<exists>e. games_combined net (y, m) = (gs, [failure_line y m e])))"
proof (intro conjI impI)
  assume "named_failure (net (url_of user y m))"
  then show "\<exists>e. fetch_bullet_games net user y m = ([], [failure_line y m e])"
    by (blast dest: named_failure_raises intro: fetch_raises)
next
  assume "\<not> named_failure (net (url_of user y m))"
  then obtain gs where "try_fetch (net (url_of user y m)) = Inr gs"
    by (cases "try_fetch (net (url_of user y m))") (auto simp: named_failure_iff)
  then show "\<exists>gs. fetch_bullet_games net user y m = (gs, [])"
    by (blast intro: fetch_returns)
next
  let ?ly = "fst (last_month (y, m))" and ?lm = "snd (last_month (y, m))"
  assume a: "named_failure (net (url_of username ?ly ?lm))
      \<and> try_fetch (net (url_of username y m)) = Inr gs"
  then obtain e where "try_fetch (net (url_of username ?ly ?lm)) = Inl e"
    by (blast dest: named_failure_raises)
  with a show "\<exists>e. games_combined net (y, m) = (gs, [failure_line ?ly ?lm e])"
    by (auto simp: games_combined_pair fetch_raises fetch_returns)
next
  let ?ly = "fst (last_month (y, m))" and ?lm = "snd (last_month (y, m))"
  assume a: "try_fetch (net (url_of username ?ly ?lm)) = Inr gs
      \<and> named_failure (net (url_of username y m))"
  then obtain e where "try_fetch (net (url_of username y m)) = Inl e"
    by (blast dest: named_failure_raises)
  with a show "\<exists>e. games_combined net (y, m) = (gs, [failure_line y m e])"
    by (auto simp: games_combined_pair fetch_raises fetch_returns)
qed

theorem failed_fetch_logged_and_empty_witness:
  "named_failure (march_down (url_of username 2024 3))
   \<and> try_fetch (march_down (url_of username 2024 2))
       = Inr [example_game ''cand5d'' ''win'' ''x'' ''resigned'' 1704067200]
   \<and> fetch_bullet_games march_down username 2024 3
       = ([], [''Failed to load 2024-03: connection refused''])
   \<and> fst (games_combined march_down (2024, 3))
       = [example_game ''cand5d'' ''win'' ''x'' ''resigned'' 1704067200]
   \<and> snd (games_combined march_down (2024, 3))
       = [''Failed to load 2024-03: connection refused'']"
proof -
  let ?g = "example_game ''cand5d'' ''win'' ''x'' ''resigned'' 1704067200"
  from march_down_facts have l: "last_month (2024, 3) = (2024, 2)" by blast
  from march_down_facts have
    g: "try_fetch (march_down (url_of username (fst (last_month (2024, 3)))
          (snd (last_month (2024, 3))))) = Inr [?g]"
    by (simp add: l)
  from march_down_facts have n: "named_failure (march_down (url_of username 2024 3))"
    by blast
  from failed_fetch_logged_and_empty [of march_down username 2024 3 "[?g]"] g n
  obtain e where "games_combined march_down (2024, 3) = ([?g], [failure_line 2024 3 e])"
    by blast
  then have c: "fst (games_combined march_down (2024, 3)) = [?g]" by simp
  have p: "snd (games_combined march_down (2024, 3))
      = [''Failed to load 2024-03: connection refused'']"
    by code_simp
  from march_down_facts c p show ?thesis by simp
qed

section \<open>The report without data\<close>

lemma line_sublist:
  "l \<in> set ls \<Longrightarrow> sublist x l \<Longrightarrow> sublist x (concat (map (\<lambda>l. l @ e) ls))"
proof -
  assume "l \<in> set ls" and x: "sublist x l"
  then obtain as bs where "ls = as @ l # bs" by (auto dest: split_list)
  then have "concat (map (\<lambda>l. l @ e) ls)
      = concat (map (\<lambda>l. l @ e) as) @ l @ (e @ concat (map (\<lambda>l. l @ e) bs))"
    by simp
  then have "sublist l (concat (map (\<lambda>l. l @ e) ls))"
    by (simp only: sublist_appendI)
  with x show ?thesis by (rule sublist_order.order_trans)
qed

lemma html_content_has_plot: "sublist p (html_content p t)"
  unfolding html_content_def
  by (rule line_sublist [where l = "''    '' @ p", OF _ sublist_append_leftI]) simp

lemma html_content_has_table: "sublist t (html_content p t)"
  unfolding html_content_def
  by (rule line_sublist [where l = "''    '' @ t", OF _ sublist_append_leftI]) simp

lemma extract_Nil: "extract_daily_stats [] = ([], [''No bullet games found.''])"
  by (simp add: extract_daily_stats_def daily_of_def frame_def)

lemma extract_empty_prints:
  "fst (extract_daily_stats gs) = [] \<Longrightarrow> extract_daily_stats gs = ([], [''No bullet games found.''])"
  by (simp add: extract_daily_stats_def Let_def split: if_splits)

lemma script_no_data:
  assumes "fst (extract_daily_stats (fst (games_combined net today))) = []"
  shows "index_html (script P T net today)
      = html_content (P (fig [])) ''<p>No data available.</p>''"
    and "''No bullet games found.'' \<in> set (printed (script P T net today))"
  using extract_empty_prints [OF assms]
  by (simp_all add: script_def split_def Let_def table_html_def)

text \<open>
  C8. The aggregation of no games is the empty frame, not an error. Whenever the
  frame of a run is empty, the document is still written: its chart is the markup
  of the figure without traces whose title is \<^verbatim>\<open>No Bullet Games Found\<close>, and its
  table section is the placeholder \<^verbatim>\<open><p>No data available.</p>\<close>.
\<close>

theorem no_data_report:
  "extract_daily_stats [] = ([], [''No bullet games found.''])
   \<and> fig [] = \<lparr>fig_data = [],
               fig_layout = [(''title'', JStr ''No Bullet Games Found''), (''height'', JInt 500)]\<rparr>
   \<and> table_html T [] = ''<p>No data available.</p>''
   \<and> (fst (extract_daily_stats (fst (games_combined net today))) = [] \<longrightarrow>
        index_html (script P T net today)
          = html_content (P (fig [])) ''<p>No data available.</p>''
        \<and> sublist (P (fig [])) (index_html (script P T net today))
        \<and> sublist ''<p>No data available.</p>'' (index_html (script P T net today))
        \<and> ''No bullet games found.'' \<in> set (printed (script P T net today)))"
  by (simp add: extract_Nil fig_def table_html_def script_no_data
      html_content_has_plot html_content_has_table)

theorem no_data_report_witness:
  "fst (extract_daily_stats (fst (games_combined all_down (2025, 1)))) = []
   \<and> index_html (script title_div (\<lambda>df. ''<table></table>'') all_down (2025, 1))
       = html_content ''<div>No Bullet Games Found</div>'' ''<p>No data available.</p>''
   \<and> printed (script title_div (\<lambda>df. ''<table></table>'') all_down (2025, 1))
       = [''Failed to load 2024-12: 503 Server Error'',
          ''Failed to load 2025-01: 503 Server Error'',
          ''Fetched 0 games'', ''No bullet games found.'', ''Generated index.html'']"
proof -
  have h: "fst (extract_daily_stats (fst (games_combined all_down (2025, 1)))) = []"
    by code_simp
  have t: "title_div (fig []) = ''<div>No Bullet Games Found</div>''"
    by code_simp
  have p: "printed (script title_div (\<lambda>df. ''<table></table>'') all_down (2025, 1))
       = [''Failed to load 2024-12: 503 Server Error'',
          ''Failed to load 2025-01: 503 Server Error'',
          ''Fetched 0 games'', ''No bullet games found.'', ''Generated index.html'']"
    by code_simp
  from no_data_report [of "\<lambda>df. ''<table></table>''" all_down "(2025, 1)" title_div] h
  have "index_html (script title_div (\<lambda>df. ''<table></table>'') all_down (2025, 1))
      = html_content (title_div (fig [])) ''<p>No data available.</p>''"
    by blast
  with h t p show ?thesis by simp
qed

end
